theory Spec2Isabelle
  imports Complex_Main "HOL-Library.Word"
begin

section \<open>The field taxonomy\<close>

text \<open>
  The enumeration \<open>DataField\<close> of the activity model. As in the C enum, the last
  enumerator \<open>DataFieldCount\<close> is the number of fields and doubles as the value
  "no such field" returned by \<open>name_to_field\<close>.
\<close>

datatype DataField =
    Timestamp | Latitude | Longitude | Altitude
  | Distance | Speed | Power | Grade
  | HeartRate | Cadence | LRBalance | Temperature
  | DataFieldCount

text \<open>The fields in the order of the enum, \<open>0 .. DataFieldCount - 1\<close>.\<close>

definition all_fields :: "DataField list" where
  "all_fields =
     [Timestamp, Latitude, Longitude, Altitude, Distance, Speed, Power, Grade,
      HeartRate, Cadence, LRBalance, Temperature]"

text \<open>\<open>DATA_FIELDS\<close> of csv.c: the canonical name of each field.\<close>

fun DATA_FIELDS :: "DataField \<Rightarrow> string" where
  "DATA_FIELDS Timestamp = ''timestamp''"
| "DATA_FIELDS Latitude = ''latitude''"
| "DATA_FIELDS Longitude = ''longitude''"
| "DATA_FIELDS Altitude = ''altitude''"
| "DATA_FIELDS Distance = ''distance''"
| "DATA_FIELDS Speed = ''speed''"
| "DATA_FIELDS Power = ''power''"
| "DATA_FIELDS Grade = ''grade''"
| "DATA_FIELDS HeartRate = ''heart_rate''"
| "DATA_FIELDS Cadence = ''cadence''"
| "DATA_FIELDS LRBalance = ''lr_balance''"
| "DATA_FIELDS Temperature = ''temperature''"
| "DATA_FIELDS DataFieldCount = []"

section \<open>Characters and C strings\<close>

text \<open>
  A C string is modelled by the list of its characters before the terminating NUL.
  \<open>isspace\<close>, \<open>tolower\<close> and \<open>toupper\<close> are those of the C locale.
\<close>

definition isspace :: "char \<Rightarrow> bool" where
  "isspace c \<longleftrightarrow> c \<in> set [CHR 0x20, CHR 0x09, CHR 0x0A, CHR 0x0B, CHR 0x0C, CHR 0x0D]"

definition upper_letters :: string where
  "upper_letters = ''ABCDEFGHIJKLMNOPQRSTUVWXYZ''"

definition lower_letters :: string where
  "lower_letters = ''abcdefghijklmnopqrstuvwxyz''"

definition tolower :: "char \<Rightarrow> char" where
  "tolower c = (case map_of (zip upper_letters lower_letters) c of Some d \<Rightarrow> d | None \<Rightarrow> c)"

definition toupper :: "char \<Rightarrow> char" where
  "toupper c = (case map_of (zip lower_letters upper_letters) c of Some d \<Rightarrow> d | None \<Rightarrow> c)"

text \<open>
  Modelled from the spec: \<open>downcase\<close> is declared in util.h, which is not part of the
  sources at hand; the spec says "lowercase in place".
\<close>

definition downcase :: "string \<Rightarrow> string" where
  "downcase s = map tolower s"

section \<open>The field-name resolver (csv.c, \<open>name_to_field\<close>)\<close>

text \<open>
  \<open>while (isspace(*name)) name++\<close> drops the leading white space, \<open>downcase\<close>
  lowers the rest, and the cascade of \<open>strcmp\<close> tests follows in the order of the
  source.
\<close>

definition name_to_field :: "string \<Rightarrow> DataField" where
  "name_to_field name0 =
     (let name = downcase (dropWhile isspace name0) in
      if name = ''timestamp'' \<or> name = ''time'' then Timestamp
      else if name = ''latitude'' \<or> name = ''lat'' then Latitude
      else if name = ''longitude'' \<or> name = ''lon'' \<or> name = ''long'' then Longitude
      else if name = ''altitude'' \<or> name = ''elevation'' \<or> name = ''alt'' \<or> name = ''ele''
        then Altitude
      else if name = ''distance'' \<or> name = ''dist'' then Distance
      else if name = ''speed'' \<or> name = ''spd'' then Speed
      else if name = ''power'' \<or> name = ''pow'' \<or> name = ''watts'' then Power
      else if name = ''slope'' \<or> name = ''grade'' \<or> name = ''gradient'' then Grade
      else if name = ''heart_rate'' \<or> name = ''hr'' then HeartRate
      else if name = ''cadence'' \<or> name = ''cad'' then Cadence
      else if name = ''balance'' \<or> name = ''bal'' \<or> name = ''lr_balance'' then LRBalance
      else if name = ''temperature'' \<or> name = ''atemp'' \<or> name = ''temp'' then Temperature
      else DataFieldCount)"

text \<open>The alias table of section 4.1 of the specification, row by row.\<close>

definition alias_table :: "(string \<times> DataField) list" where
  "alias_table =
     [(''timestamp'', Timestamp), (''time'', Timestamp),
      (''latitude'', Latitude), (''lat'', Latitude),
      (''longitude'', Longitude), (''lon'', Longitude), (''long'', Longitude),
      (''altitude'', Altitude), (''elevation'', Altitude), (''alt'', Altitude),
      (''ele'', Altitude),
      (''distance'', Distance), (''dist'', Distance),
      (''speed'', Speed), (''spd'', Speed),
      (''power'', Power), (''pow'', Power), (''watts'', Power),
      (''slope'', Grade), (''grade'', Grade), (''gradient'', Grade),
      (''heart_rate'', HeartRate), (''hr'', HeartRate),
      (''cadence'', Cadence), (''cad'', Cadence),
      (''balance'', LRBalance), (''bal'', LRBalance), (''lr_balance'', LRBalance),
      (''temperature'', Temperature), (''atemp'', Temperature), (''temp'', Temperature)]"

section \<open>The activity model\<close>

text \<open>
  A field value is a C \<open>double\<close> with one reserved value that stands for "unset"
  (the macro \<open>SET\<close> tests for it). The model keeps the reserved value apart from the
  numbers; no claim depends on floating-point rounding, so the numbers are reals.
\<close>

datatype double = Unset | Val real

definition SET :: "double \<Rightarrow> bool" where
  "SET d \<longleftrightarrow> d \<noteq> Unset"

text \<open>A \<open>DataPoint\<close> is an array of doubles indexed by \<open>DataField\<close>.\<close>

type_synonym DataPoint = "DataField \<Rightarrow> double"

definition unset_data_point :: DataPoint where
  "unset_data_point = (\<lambda>_. Unset)"

text \<open>
  Modelled from the spec: \<open>Vector\<close> and \<open>vector_add\<close> are declared in util.h, which is
  not part of the sources at hand. A vector is a growable array of \<open>uint32_t\<close>; the
  null vector of a fresh \<open>State\<close> is the empty list, and \<open>vector_add\<close> appends
  (allocation is taken to succeed, so it returns 0).
\<close>

type_synonym Vector = "32 word list"

definition vector_add :: "Vector \<Rightarrow> 32 word \<Rightarrow> Vector \<times> int" where
  "vector_add v x = (v @ [x], 0)"

datatype FileFormat = NoFormat | CSV | GPX

text \<open>
  Modelled from the spec: \<open>Activity\<close> is declared in activity.h, which is not part of
  the sources at hand. The fields are those the two source files use and section 3 of
  the specification lists; \<open>num_points\<close> is the length of \<open>data_points\<close>, and
  \<open>last_val\<close> (the array \<open>last\<close>) holds, per field, the last set value observed (unset when there is none),
  so the C test \<open>a->last[f]\<close> is \<open>SET (last_val a f)\<close>.
\<close>

record Activity =
  data_points :: "DataPoint list"
  last_val :: DataPoint
  breaks :: Vector
  laps :: Vector
  format :: FileFormat
  start_time :: double

definition num_points :: "Activity \<Rightarrow> nat" where
  "num_points a = length (data_points a)"

section \<open>External collaborators\<close>

text \<open>
  The helpers of util.h and the constants of csv.h are not part of the sources at hand;
  the functions of csv.c and gpx.c take them as parameters:
  \<^item> \<open>parse_value f text\<close>: the value \<open>parse_field\<close> stores for field \<open>f\<close> (the text
    is \<open>None\<close> for a null pointer);
  \<^item> \<open>parse_timestamp text\<close>: \<open>(uint32_t)parse_timestamp(text)\<close>;
  \<^item> \<open>format_timestamp\<close> and \<open>printf_double fmt\<close>: the text written for a value;
  \<^item> \<open>max_points\<close>: how many points the activity container takes before
    \<open>activity_add_point\<close> refuses an append;
  \<^item> \<open>uint32_of_unset\<close>: what the cast \<open>(uint32_t)\<close> makes of the reserved "unset"
    value (\<open>None\<close>: it is outside the range of \<open>uint32_t\<close>, the cast is undefined);
  \<^item> \<open>CSV_BUFSIZ\<close>, \<open>CSV_FIELD_SIZE\<close>, \<open>CSV_MAX_FIELDS\<close>: the buffer sizes of csv.h.
\<close>

record externs =
  parse_value :: "DataField \<Rightarrow> string option \<Rightarrow> double"
  parse_timestamp :: "string option \<Rightarrow> 32 word"
  format_timestamp :: "double \<Rightarrow> string"
  printf_double :: "string \<Rightarrow> double \<Rightarrow> string"
  max_points :: nat
  uint32_of_unset :: "32 word option"
  CSV_BUFSIZ :: nat
  CSV_FIELD_SIZE :: nat
  CSV_MAX_FIELDS :: nat

section \<open>Output streams\<close>

text \<open>
  A \<open>FILE\<close> opened for writing: the bytes written so far, the room left on the device
  (\<open>None\<close>: unbounded) and the error indicator. \<open>fprintf\<close> returns the number of bytes
  written, or a negative value when the text does not fit; then nothing is written and
  the error indicator is set.
\<close>

record FILE =
  written :: string
  room :: "nat option"
  ferror :: bool

definition fprintf :: "FILE \<Rightarrow> string \<Rightarrow> FILE \<times> int" where
  "fprintf f s =
     (case room f of
        None \<Rightarrow> (f\<lparr>written := written f @ s\<rparr>, int (length s))
      | Some n \<Rightarrow>
          if length s \<le> n
          then (f\<lparr>written := written f @ s, room := Some (n - length s)\<rparr>, int (length s))
          else (f\<lparr>ferror := True\<rparr>, - 1))"

section \<open>The activity container\<close>

text \<open>
  Modelled from the spec: \<open>activity_new\<close>, \<open>activity_add_point\<close> and \<open>parse_field\<close>
  are defined in activity.c and util.c, which are not part of the sources at hand.
  A new activity is empty with every field of \<open>last\<close> unset. \<open>activity_add_point\<close>
  appends the point, records the set fields in \<open>last\<close> and the first timestamp in
  \<open>start_time\<close>, and returns 0; it refuses (returns 1, activity unchanged) when the
  container is full. \<open>parse_field\<close> stores the parsed value of the text in the field of
  the point, over any earlier value.
\<close>

definition activity_new :: Activity where
  "activity_new =
     \<lparr>data_points = [], last_val = unset_data_point, breaks = [], laps = [],
      format = NoFormat, start_time = Unset\<rparr>"

definition activity_add_point :: "externs \<Rightarrow> Activity \<Rightarrow> DataPoint \<Rightarrow> Activity \<times> int" where
  "activity_add_point X a p =
     (if num_points a < max_points X
      then (a\<lparr>data_points := data_points a @ [p],
               last_val := (\<lambda>field. if SET (p field) then p field else last_val a field),
               start_time := (if data_points a = [] then p Timestamp else start_time a)\<rparr>, 0)
      else (a, 1))"

definition parse_field :: "externs \<Rightarrow> DataField \<Rightarrow> DataPoint \<Rightarrow> string option \<Rightarrow> DataPoint" where
  "parse_field X field p text = p(field := parse_value X field text)"

section \<open>Undefined behaviour\<close>

text \<open>
  Where the C code reads outside an array, through a null or uninitialised pointer,
  writes past a buffer, converts a double that \<open>uint32_t\<close> cannot hold, or runs a
  loop that makes no progress, the model stops with a fault instead of a result.
\<close>

datatype fault =
  OutOfBounds | NullPointer | Uninitialised | BufferOverflow | UndefinedConversion
  | NoProgress

text \<open>The conversions between \<open>double\<close> and \<open>uint32_t\<close>.\<close>

definition uint32_of_double :: "externs \<Rightarrow> double \<Rightarrow> 32 word option" where
  "uint32_of_double X d =
     (case d of
        Unset \<Rightarrow> uint32_of_unset X
      | Val r \<Rightarrow>
          if - 1 < r \<and> r < 4294967296
          then Some (word_of_int (if r < 0 then 0 else \<lfloor>r\<rfloor>))
          else None)"

definition double_of_uint32 :: "32 word \<Rightarrow> double" where
  "double_of_uint32 w = Val (real (unat w))"

section \<open>The CSV reader (csv.c)\<close>

subsection \<open>C strings and input streams\<close>





subsection \<open>The header\<close>





subsection \<open>The data rows\<close>








section \<open>The CSV writer (csv.c)\<close>

record CSVOptions =
  remove_unset :: bool
  unset_value :: string

text \<open>
  \<open>write_field\<close>: the stream and the flag \<open>*first\<close> are passed in and returned. The
  results of \<open>fprintf\<close> are dropped, as in the source.
\<close>

definition write_field ::
  "externs \<Rightarrow> FILE \<Rightarrow> string \<Rightarrow> nat \<Rightarrow> DataField \<Rightarrow> Activity \<Rightarrow> CSVOptions \<Rightarrow> bool
     \<Rightarrow> FILE \<times> bool" where
  "write_field X f fmt i field a opts first =
     (let d = (data_points a ! i) field in
      if \<not> remove_unset opts \<or> SET (last_val a field) then
        let f1 = (if \<not> first then fst (fprintf f '','') else f);
            f2 = (if \<not> SET d then fst (fprintf f1 (unset_value opts))
                  else fst (fprintf f1 (printf_double X fmt d)))
        in (f2, False)
      else (f, first))"

text \<open>One step of the header loop, for the field with index \<open>i\<close>.\<close>

definition header_step :: "Activity \<Rightarrow> CSVOptions \<Rightarrow> DataField \<Rightarrow> FILE \<times> bool \<Rightarrow> FILE \<times> bool" where
  "header_step a opts field s =
     (case s of (f, first) \<Rightarrow>
        if \<not> remove_unset opts \<or> SET (last_val a field) then
          if first then (fst (fprintf f (DATA_FIELDS field)), False)
          else (fst (fprintf f ('','' @ DATA_FIELDS field)), first)
        else (f, first))"

text \<open>The body of the loop over the data points: twelve calls and a newline.\<close>

definition write_row :: "externs \<Rightarrow> Activity \<Rightarrow> CSVOptions \<Rightarrow> nat \<Rightarrow> FILE \<Rightarrow> FILE" where
  "write_row X a opts i f0 =
     (let first = True;
          (f, first) = write_field X f0 ''%.0f'' i Timestamp a opts first;
          (f, first) = write_field X f ''%.7f'' i Latitude a opts first;
          (f, first) = write_field X f ''%.7f'' i Longitude a opts first;
          (f, first) = write_field X f ''%.3f'' i Altitude a opts first;
          (f, first) = write_field X f ''%.2f'' i Distance a opts first;
          (f, first) = write_field X f ''%.2f'' i Speed a opts first;
          (f, first) = write_field X f ''%.0f'' i Power a opts first;
          (f, first) = write_field X f ''%.2f'' i Grade a opts first;
          (f, first) = write_field X f ''%.0f'' i HeartRate a opts first;
          (f, first) = write_field X f ''%.0f'' i Cadence a opts first;
          (f, first) = write_field X f ''%.0f'' i LRBalance a opts first;
          (f, first) = write_field X f ''%.0f'' i Temperature a opts first
      in fst (fprintf f [CHR 0x0A]))"

definition csv_write_options :: "externs \<Rightarrow> FILE \<Rightarrow> Activity \<Rightarrow> CSVOptions \<Rightarrow> int \<times> FILE" where
  "csv_write_options X f a opts =
     (let (f1, first) = fold (header_step a opts) all_fields (f, True);
          f2 = fst (fprintf f1 [CHR 0x0A]);
          f3 = fold (write_row X a opts) [0 ..< num_points a] f2
      in (0, f3))"

section \<open>The GPX reader (gpx.c)\<close>

subsection \<open>The XML library\<close>

text \<open>
  Modelled from the spec: Mini-XML (mxml.h) is not part of the sources at hand. A node
  has an element name, attributes, the opaque text of its first child (if any) and a
  reference count, which \<open>mxmlRetain\<close> increments. The loader is given the SAX events
  of the document in order; it calls the callback on each, stops with no tree as soon as
  the callback returns non-zero, and at the end of the input returns the first node the
  callback retained (no tree if there is none).
\<close>

record mxml_node =
  element :: string
  attrs :: "(string \<times> string) list"
  opaque :: "string option"
  ref_count :: nat

datatype mxml_sax_event =
    MXML_SAX_CDATA | MXML_SAX_COMMENT | MXML_SAX_DATA | MXML_SAX_DIRECTIVE
  | MXML_SAX_ELEMENT_CLOSE | MXML_SAX_ELEMENT_OPEN

definition mxmlGetElement :: "mxml_node \<Rightarrow> string" where
  "mxmlGetElement node = element node"

definition mxmlGetOpaque :: "mxml_node \<Rightarrow> string option" where
  "mxmlGetOpaque node = opaque node"

definition mxmlElementGetAttr :: "mxml_node \<Rightarrow> string \<Rightarrow> string option" where
  "mxmlElementGetAttr node name = map_of (attrs node) name"

definition mxmlRetain :: "mxml_node \<Rightarrow> mxml_node" where
  "mxmlRetain node = node\<lparr>ref_count := ref_count node + 1\<rparr>"

fun sax_load ::
  "(mxml_node \<Rightarrow> mxml_sax_event \<Rightarrow> 's \<Rightarrow> fault + (int \<times> mxml_node \<times> 's))
     \<Rightarrow> (mxml_node \<times> mxml_sax_event) list \<Rightarrow> mxml_node list \<Rightarrow> 's
     \<Rightarrow> fault + (mxml_node option \<times> 's)" where
  "sax_load cb [] retained s =
     Inr (case retained of [] \<Rightarrow> None | node # _ \<Rightarrow> Some node, s)"
| "sax_load cb ((node, event) # rest) retained s =
     (case cb node event s of
        Inl e \<Rightarrow> Inl e
      | Inr (r, node', s') \<Rightarrow>
          if r \<noteq> 0 then Inr (None, s')
          else sax_load cb rest
                 (if ref_count node < ref_count node' then retained @ [node'] else retained) s')"

definition mxmlSAXLoadFile ::
  "(mxml_node \<times> mxml_sax_event) list
     \<Rightarrow> (mxml_node \<Rightarrow> mxml_sax_event \<Rightarrow> 's \<Rightarrow> fault + (int \<times> mxml_node \<times> 's)) \<Rightarrow> 's
     \<Rightarrow> fault + (mxml_node option \<times> 's)" where
  "mxmlSAXLoadFile f cb sax_data = sax_load cb f [] sax_data"

subsection \<open>The parser state and the SAX callback\<close>

text \<open>
  The struct \<open>State\<close>. Its field \<open>laps\<close> is \<open>laps_read\<close> here, apart from the field
  \<open>laps\<close> of the activity; the two vectors \<open>lap_times\<close> and \<open>laps_read\<close> start null.
\<close>

record State =
  activity :: Activity
  metadata :: bool
  first_element :: bool
  dp :: DataPoint
  wpt :: bool
  trkseg :: bool
  lap_times :: Vector
  laps_read :: Vector
  lap_num :: nat

text \<open>
  The branch of \<open>sax_cb\<close> for the close of a \<open>trkpt\<close>. The source reads
  \<open>lap_times[lap_num]\<close> with no test of \<open>lap_num\<close> against the size of the vector.
\<close>

definition sax_cb_trkpt_close ::
  "externs \<Rightarrow> mxml_node \<Rightarrow> State \<Rightarrow> fault + (int \<times> mxml_node \<times> State)" where
  "sax_cb_trkpt_close X node state0 =
     (case activity_add_point X (activity state0) (dp state0) of
        (a, r) \<Rightarrow>
          if r \<noteq> 0 then Inr (1, node, state0\<lparr>activity := a\<rparr>)
          else
            let state1 = state0\<lparr>activity := a\<rparr> in
            if length (lap_times state1) \<le> lap_num state1 then Inl OutOfBounds
            else
              let state2 =
                    (if dp state1 Timestamp = double_of_uint32 (lap_times state1 ! lap_num state1)
                     then state1\<lparr>laps_read :=
                                   fst (vector_add (laps_read state1)
                                          (word_of_nat (num_points (activity state1)) - 1)),
                                 lap_num := lap_num state1 + 1\<rparr>
                     else state1);
                  state3 =
                    (if trkseg state2
                     then state2\<lparr>activity := (activity state2)
                                   \<lparr>breaks := fst (vector_add (breaks (activity state2))
                                      (word_of_nat (num_points (activity state2)) - 1))\<rparr>,
                                 trkseg := False\<rparr>
                     else state2)
              in Inr (0, node, state3\<lparr>dp := unset_data_point\<rparr>))"

text \<open>The branch for \<open>MXML_SAX_ELEMENT_CLOSE\<close>.\<close>

definition sax_cb_close ::
  "externs \<Rightarrow> mxml_node \<Rightarrow> State \<Rightarrow> fault + (int \<times> mxml_node \<times> State)" where
  "sax_cb_close X node state =
     (let name = mxmlGetElement node; data = mxmlGetOpaque node in
      if name = ''metadata'' then Inr (0, node, state\<lparr>metadata := False\<rparr>)
      else if metadata state then Inr (0, node, state)
      else if name = ''wpt'' then Inr (0, node, state\<lparr>wpt := False\<rparr>)
      else if name = ''time'' then
        (if wpt state then
           (case vector_add (lap_times state) (parse_timestamp X data) of
              (v, r) \<Rightarrow> Inr (r, node, state\<lparr>lap_times := v\<rparr>))
         else
           let state1 = state\<lparr>dp := parse_field X Timestamp (dp state) data\<rparr> in
           (case uint32_of_double X (dp state1 Timestamp) of
              None \<Rightarrow> Inl UndefinedConversion
            | Some w \<Rightarrow>
                (case vector_add (breaks (activity state1)) w of
                   (v, r) \<Rightarrow> Inr (r, node, state1\<lparr>activity := (activity state1)\<lparr>breaks := v\<rparr>\<rparr>))))
      else if name = ''ele'' then
        Inr (0, node, state\<lparr>dp := parse_field X Altitude (dp state) data\<rparr>)
      else if name = ''gpxdata:hr'' \<or> name = ''gpxtpx:hr'' then
        Inr (0, node, state\<lparr>dp := parse_field X HeartRate (dp state) data\<rparr>)
      else if name = ''gpxdata:temp'' \<or> name = ''gpxtpx:atemp'' then
        Inr (0, node, state\<lparr>dp := parse_field X Temperature (dp state) data\<rparr>)
      else if name = ''gpxdata:cadence'' \<or> name = ''gpxtpx:cad'' then
        Inr (0, node, state\<lparr>dp := parse_field X Cadence (dp state) data\<rparr>)
      else if name = ''gpxdata:bikepower'' then
        Inr (0, node, state\<lparr>dp := parse_field X Power (dp state) data\<rparr>)
      else if name = ''trkpt'' then sax_cb_trkpt_close X node state
      else Inr (0, node, state))"

text \<open>The branch for \<open>MXML_SAX_ELEMENT_OPEN\<close>.\<close>

definition sax_cb_open ::
  "externs \<Rightarrow> mxml_node \<Rightarrow> State \<Rightarrow> fault + (int \<times> mxml_node \<times> State)" where
  "sax_cb_open X node state =
     (if metadata state then Inr (0, node, state)
      else
        let name = mxmlGetElement node in
        if first_element state \<and> name \<noteq> ''gpx'' then Inr (1, node, state)
        else
          let node1 = (if first_element state then mxmlRetain node else node);
              state1 =
                (if name = ''metadata'' then state\<lparr>metadata := True\<rparr>
                 else if name = ''wpt'' then state\<lparr>wpt := True\<rparr>
                 else if name = ''trkseg'' then state\<lparr>trkseg := True\<rparr>
                 else if name = ''trkpt'' then
                   let p1 = (case mxmlElementGetAttr node1 ''lat'' of
                               None \<Rightarrow> dp state
                             | Some attr \<Rightarrow> parse_field X Latitude (dp state) (Some attr));
                       p2 = (case mxmlElementGetAttr node1 ''lon'' of
                               None \<Rightarrow> p1
                             | Some attr \<Rightarrow> parse_field X Longitude p1 (Some attr))
                   in state\<lparr>dp := p2\<rparr>
                 else state)
          in Inr (0, node1, state1\<lparr>first_element := False\<rparr>))"

definition sax_cb ::
  "externs \<Rightarrow> mxml_node \<Rightarrow> mxml_sax_event \<Rightarrow> State \<Rightarrow> fault + (int \<times> mxml_node \<times> State)" where
  "sax_cb X node event state =
     (if event = MXML_SAX_ELEMENT_OPEN then sax_cb_open X node state
      else if event = MXML_SAX_ELEMENT_CLOSE then sax_cb_close X node state
      else if event = MXML_SAX_DATA then Inr (0, mxmlRetain node, state)
      else Inr (0, node, state))"

subsection \<open>Lap reconciliation\<close>

text \<open>
  The \<open>while\<close> loop of \<open>fix_laps\<close> over \<open>i\<close> and \<open>j\<close>; the result is the final \<open>i\<close>.
  \<open>breaks->data[j]-1\<close> is computed in \<open>uint32_t\<close> and wraps at 0. (The assignment
  \<open>match = false\<close> before the \<open>break\<close> is to a variable that is read nowhere.)
\<close>

function lap_walk :: "Vector \<Rightarrow> Vector \<Rightarrow> nat \<Rightarrow> nat \<Rightarrow> nat" where
  "lap_walk ls bs i j =
     (if i < length ls \<and> j < length bs then
        if ls ! i = bs ! j - 1 then lap_walk ls bs (i + 1) (j + 1)
        else if ls ! i > bs ! j - 1 then lap_walk ls bs i (j + 1)
        else i
      else i)"
  by pat_completeness auto
termination
  by (relation "measure (\<lambda>(ls, bs, i, j). length bs - j)") auto

declare lap_walk.simps [simp del]

text \<open>
  \<open>fix_laps\<close>. The first test of the source reads
  \<open>!s->laps && s>activity->num_points || s->laps->size == 1\<close>; it is taken as
  \<open>(!s->laps && s->activity->num_points) || s->laps->size == 1\<close>, so with a null
  \<open>laps\<close> and no point the second operand reads through the null pointer.
\<close>

definition fix_laps :: "State \<Rightarrow> fault + State" where
  "fix_laps s0 =
     (let s = s0\<lparr>activity := (activity s0)\<lparr>laps := fst (vector_add (laps (activity s0)) 1)\<rparr>\<rparr> in
      if laps_read s = [] \<and> num_points (activity s) \<noteq> 0 then Inr s
      else if laps_read s = [] then Inl NullPointer
      else if length (laps_read s) = 1 then Inr s
      else if 1 < length (laps_read s) \<and> 1 < length (breaks (activity s))
              \<and> length (laps_read s) \<le> length (breaks (activity s)) then
        let i = lap_walk (laps_read s) (breaks (activity s)) 1 1;
            tweak = (if i = length (laps_read s) then 1 else 0 :: nat)
        in Inr (fold (\<lambda>i s'. s'\<lparr>activity := (activity s')
                        \<lparr>laps := fst (vector_add (laps (activity s'))
                                        (laps_read s' ! i + word_of_nat tweak))\<rparr>\<rparr>)
                  [1 ..< length (laps_read s) - tweak] s)
      else Inr s)"

subsection \<open>\<open>gpx_read\<close>\<close>

text \<open>The initialiser of \<open>state\<close>, with the new activity.\<close>

definition initial_state :: State where
  "initial_state =
     \<lparr>activity = activity_new, metadata = False, first_element = True,
      dp = unset_data_point, wpt = False, trkseg = False,
      lap_times = [], laps_read = [], lap_num = 0\<rparr>"

definition gpx_read :: "externs \<Rightarrow> (mxml_node \<times> mxml_sax_event) list \<Rightarrow> fault + Activity option" where
  "gpx_read X f =
     (let state = initial_state
      in case mxmlSAXLoadFile f (sax_cb X) state of
           Inl e \<Rightarrow> Inl e
         | Inr (None, state1) \<Rightarrow> Inr None
         | Inr (Some tree, state1) \<Rightarrow>
             let state2 = state1\<lparr>activity := (activity state1)\<lparr>format := GPX\<rparr>\<rparr> in
             if laps_read state2 \<noteq> [] then
               (case fix_laps state2 of
                  Inl e \<Rightarrow> Inl e
                | Inr state3 \<Rightarrow> Inr (Some (activity state3)))
             else Inr (Some (activity state2)))"

section \<open>The GPX writer (gpx.c)\<close>

text \<open>
  Modelled from the spec: the tree of Mini-XML nodes that \<open>mxmlNewElement\<close>,
  \<open>mxmlElementSetAttr\<close>, \<open>mxmlNewText\<close> and \<open>mxmlNewInteger\<close> build. An element has
  a name, its attributes in the order they were set and its children in the order they
  were added.
\<close>

datatype xml = Element string "(string \<times> string) list" "xml list" | Text string | Integer int





text \<open>Decimal digits of a number, for \<open>%d\<close>.\<close>

fun decimal :: "nat \<Rightarrow> string" where
  "decimal n =
     (if n < 10 then [''0123456789'' ! n]
      else decimal (n div 10) @ [''0123456789'' ! (n mod 10)])"

declare decimal.simps [simp del]



record GPXOptions =
  add_laps :: bool
  lap_trksegs :: bool

text \<open>
  The conversion of a double to the \<open>int\<close> argument of \<open>mxmlNewInteger\<close> (an \<open>int\<close>
  of 32 bits): the value truncated toward zero, undefined (\<open>None\<close>) when the truncated
  value is outside the range of \<open>int\<close>. The source converts set values only.
\<close>

definition int_of_double :: "double \<Rightarrow> int option" where
  "int_of_double d =
     (case d of
        Unset \<Rightarrow> None
      | Val r \<Rightarrow>
          let k = (if r < 0 then \<lceil>r\<rceil> else \<lfloor>r\<rfloor>) in
          if - 2147483648 \<le> k \<and> k \<le> 2147483647 then Some k else None)"

text \<open>The name of the declaration node that \<open>mxmlNewXML\<close> creates.\<close>

definition mxmlNewXML :: "string \<Rightarrow> string" where
  "mxmlNewXML version =
     ''?xml version='' @ [CHR 0x22] @ version @ [CHR 0x22]
       @ '' encoding='' @ [CHR 0x22] @ ''utf-8'' @ [CHR 0x22] @ ''?''"

text \<open>The attributes of the root element, in the order they are set.\<close>

definition gpx_attrs :: "(string \<times> string) list" where
  "gpx_attrs =
     [(''creator'', ''fitparse''),
      (''version'', ''1.1''),
      (''xmlns'', ''http://www.topografix.com/GPX/1/1''),
      (''xmlns:xsi'', ''http://www.w3.org/2001/XMLSchema-instance''),
      (''xmlns:gpxtpx'', ''http://www.garmin.com/xmlschemas/TrackPointExtension/v1''),
      (''xmlns:gpxx'', ''http://www.garmin.com/xmlschemas/GpxExtensions/v3''),
      (''xsi:schemaLocation'',
         ''http://www.topografix.com/GPX/1/1 ''
         @ ''http://www.topografix.com/GPX/1/1/gpx.xsd ''
         @ ''http://www.garmin.com/xmlschemas/GpxExtensions/v3 ''
         @ ''http://www.garmin.com/xmlschemas/GpxExtensionsv3.xsd ''
         @ ''http://www.garmin.com/xmlschemas/TrackPointExtension/v1 ''
         @ ''http://www.garmin.com/xmlschemas/''
         @ ''TrackPointExtensionv1.xsd'')]"

text \<open>
  The body of the loop "write laps as waypoints" for the index \<open>i\<close>: the coordinates
  are read from \<open>data_points[lap]\<close>, the time from \<open>data_points[i]\<close>.
\<close>

definition wpt_element :: "externs \<Rightarrow> Activity \<Rightarrow> nat \<Rightarrow> fault + xml" where
  "wpt_element X a i =
     (let lap = unat (laps a ! i) in
      if num_points a \<le> lap then Inl OutOfBounds
      else if num_points a \<le> i then Inl OutOfBounds
      else Inr (Element ''wpt''
             [(''lat'', printf_double X ''%.7f'' ((data_points a ! lap) Latitude)),
              (''lon'', printf_double X ''%.7f'' ((data_points a ! lap) Longitude))]
             [Element ''time'' [] [Text (format_timestamp X ((data_points a ! i) Timestamp))],
              Element ''name'' [] [Text (''Lap '' @ decimal i)]]))"

fun wpt_loop :: "externs \<Rightarrow> Activity \<Rightarrow> nat list \<Rightarrow> fault + xml list" where
  "wpt_loop X a [] = Inr []"
| "wpt_loop X a (i # is) =
     (case wpt_element X a i of
        Inl e \<Rightarrow> Inl e
      | Inr w \<Rightarrow> (case wpt_loop X a is of Inl e \<Rightarrow> Inl e | Inr ws \<Rightarrow> Inr (w # ws)))"

text \<open>
  A child of the track point extension: \<open>if (SET(v)) { e = mxmlNewElement(gpxtpx, name);
  mxmlNewInteger(e, v); }\<close>.
\<close>

definition integer_child :: "string \<Rightarrow> double \<Rightarrow> fault + xml list" where
  "integer_child name d =
     (if SET d then
        (case int_of_double d of
           None \<Rightarrow> Inl UndefinedConversion
         | Some k \<Rightarrow> Inr [Element name [] [Integer k]])
      else Inr [])"

text \<open>The \<open>trkpt\<close> element of the point \<open>i\<close>, with the children whose values are set.\<close>

definition trkpt_element :: "externs \<Rightarrow> Activity \<Rightarrow> nat \<Rightarrow> fault + xml" where
  "trkpt_element X a i =
     (let p = data_points a ! i;
          coords = [(''lat'', printf_double X ''%.7f'' (p Latitude)),
                    (''lon'', printf_double X ''%.7f'' (p Longitude))];
          children =
            (if SET (p Altitude)
             then [Element ''ele'' [] [Text (printf_double X ''%.2f'' (p Altitude))]] else [])
            @ (if SET (p Timestamp)
               then [Element ''time'' [] [Text (format_timestamp X (p Timestamp))]] else [])
      in if SET (p HeartRate) \<or> SET (p Cadence) \<or> SET (p Temperature) then
           (case integer_child ''gpxtpx:hr'' (p HeartRate) of
              Inl e \<Rightarrow> Inl e
            | Inr hr \<Rightarrow>
                (case integer_child ''gpxtpx:cad'' (p Cadence) of
                   Inl e \<Rightarrow> Inl e
                 | Inr cad \<Rightarrow>
                     (case integer_child ''gpxtpx:atemp'' (p Temperature) of
                        Inl e \<Rightarrow> Inl e
                      | Inr atemp \<Rightarrow>
                          Inr (Element ''trkpt'' coords
                                 (children
                                  @ [Element ''extensions'' []
                                       [Element ''gpxtpx:TrackPointExtension'' []
                                          (hr @ cad @ atemp)]])))))
         else Inr (Element ''trkpt'' coords children))"

text \<open>
  The loop over the points. Its state is the list of track segments created so far,
  each with its points (the pointer \<open>trkseg\<close> is the last of them, and is uninitialised
  while there is none), \<open>lap_count\<close> and \<open>lap\<close>. The source reads
  \<open>a->laps->data[++lap_count]\<close> with no test against the size of the vector.
\<close>

fun trk_loop ::
  "externs \<Rightarrow> Activity \<Rightarrow> GPXOptions \<Rightarrow> nat list \<Rightarrow> xml list list \<times> nat \<times> 32 word
     \<Rightarrow> fault + xml list list \<times> nat \<times> 32 word" where
  "trk_loop X a opts [] st = Inr st"
| "trk_loop X a opts (i # is) (segs, lap_count, lap) =
     (if (add_laps opts \<and> lap_trksegs opts) \<and> lap_count < length (laps a) \<and> unat lap = i
      then
        (if length (laps a) \<le> lap_count + 1 then Inl OutOfBounds
         else
           (case trkpt_element X a i of
              Inl e \<Rightarrow> Inl e
            | Inr pt \<Rightarrow>
                trk_loop X a opts is
                  (segs @ [[pt]], lap_count + 1, laps a ! (lap_count + 1))))
      else if segs = [] then Inl Uninitialised
      else
        (case trkpt_element X a i of
           Inl e \<Rightarrow> Inl e
         | Inr pt \<Rightarrow>
             trk_loop X a opts is
               (butlast segs @ [List.last segs @ [pt]], lap_count, lap)))"

definition to_gpx_xml :: "externs \<Rightarrow> Activity \<Rightarrow> GPXOptions \<Rightarrow> fault + xml" where
  "to_gpx_xml X a opts =
     (let metadata_el =
            Element ''metadata'' [] [Element ''time'' [] [Text (format_timestamp X (start_time a))]]
      in case (if add_laps opts then wpt_loop X a [0 ..< length (laps a)] else Inr []) of
           Inl e \<Rightarrow> Inl e
         | Inr wpts \<Rightarrow>
             (case trk_loop X a opts [0 ..< num_points a]
                     (if \<not> (add_laps opts \<and> lap_trksegs opts) then [[]] else [], 0, 0) of
                Inl e \<Rightarrow> Inl e
              | Inr (segs, lap_count, lap) \<Rightarrow>
                  Inr (Element (mxmlNewXML ''1.0'') []
                         [Element ''gpx'' gpx_attrs
                            ([metadata_el] @ wpts
                             @ [Element ''trk'' []
                                  (Element ''name'' [] [Text ''Untitled'']
                                   # map (Element ''trkseg'' []) segs)])])))"


section \<open>What the CSV writer prints\<close>

text \<open>The format string \<open>csv_write_options\<close> passes to \<open>write_field\<close> for each field.\<close>

fun field_format :: "DataField \<Rightarrow> string" where
  "field_format Timestamp = ''%.0f''"
| "field_format Latitude = ''%.7f''"
| "field_format Longitude = ''%.7f''"
| "field_format Altitude = ''%.3f''"
| "field_format Distance = ''%.2f''"
| "field_format Speed = ''%.2f''"
| "field_format Power = ''%.0f''"
| "field_format Grade = ''%.2f''"
| "field_format HeartRate = ''%.0f''"
| "field_format Cadence = ''%.0f''"
| "field_format LRBalance = ''%.0f''"
| "field_format Temperature = ''%.0f''"
| "field_format DataFieldCount = []"

text \<open>The text of the cell of point \<open>i\<close> for a field that is kept.\<close>

definition cell :: "externs \<Rightarrow> Activity \<Rightarrow> CSVOptions \<Rightarrow> nat \<Rightarrow> DataField \<Rightarrow> string" where
  "cell X a opts i field =
     (let d = (data_points a ! i) field in
      if SET d then printf_double X (field_format field) d else unset_value opts)"

fun join_commas :: "string list \<Rightarrow> string" where
  "join_commas [] = []"
| "join_commas [c] = c"
| "join_commas (c # cs) = c @ '','' @ join_commas cs"

text \<open>A line of comma-separated cells, with its newline.\<close>

definition csv_line :: "string list \<Rightarrow> string" where
  "csv_line cells = join_commas cells @ [CHR 0x0A]"

text \<open>The fields with a set value somewhere in the activity, in canonical order.\<close>

definition kept_fields :: "Activity \<Rightarrow> DataField list" where
  "kept_fields a = filter (\<lambda>field. SET (last_val a field)) all_fields"

text \<open>What a run of calls prints: a comma before every cell but the first.\<close>

fun emit :: "bool \<Rightarrow> string list \<Rightarrow> string" where
  "emit first [] = []"
| "emit first (c # cs) = (if first then c else '','' @ c) @ emit False cs"

definition put :: "FILE \<Rightarrow> string \<Rightarrow> FILE" where
  "put f s = f\<lparr>written := written f @ s\<rparr>"

text \<open>The twelve calls of \<open>write_row\<close> as one step per field.\<close>

definition row_step ::
  "externs \<Rightarrow> Activity \<Rightarrow> CSVOptions \<Rightarrow> nat \<Rightarrow> DataField \<Rightarrow> FILE \<times> bool \<Rightarrow> FILE \<times> bool" where
  "row_step X a opts i field s =
     (case s of (f, first) \<Rightarrow> write_field X f (field_format field) i field a opts first)"

section \<open>Concrete inputs\<close>

text \<open>
  An instance of the external helpers for the concrete runs below: ten points at most,
  \<open>printf\<close> on the three values of the example activity, and small CSV buffers.
\<close>

definition demo_printf :: "string \<Rightarrow> double \<Rightarrow> string" where
  "demo_printf fmt d =
     (if fmt = ''%.0f'' \<and> d = Val 0 then ''0''
      else if fmt = ''%.7f'' \<and> d = Val 1 then ''1.0000000''
      else if fmt = ''%.7f'' \<and> d = Val 2 then ''2.0000000''
      else [])"

definition demo_parse :: "DataField \<Rightarrow> string option \<Rightarrow> double" where
  "demo_parse field text =
     (case text of
        None \<Rightarrow> Unset
      | Some s \<Rightarrow>
          (case map_of [(''1'', Val 1), (''2'', Val 2), (''3'', Val 3), (''5'', Val 5),
                        (''7'', Val 7), (''10'', Val 10), (''20'', Val 20)] s of
             None \<Rightarrow> Unset
           | Some d \<Rightarrow> d))"

definition demo_timestamp :: "string option \<Rightarrow> 32 word" where
  "demo_timestamp text =
     (case text of
        None \<Rightarrow> 0
      | Some s \<Rightarrow>
          (case map_of [(''5'', 5), (''7'', 7), (''10'', 10), (''20'', 20)] s of
             None \<Rightarrow> 0
           | Some w \<Rightarrow> w))"

definition demo_format_timestamp :: "double \<Rightarrow> string" where
  "demo_format_timestamp d =
     (if d = Val 10 then ''T10'' else if d = Val 20 then ''T20''
      else if d = Val 30 then ''T30'' else ''T?'')"

definition demo_externs :: externs where
  "demo_externs =
     \<lparr>parse_value = demo_parse, parse_timestamp = demo_timestamp,
      format_timestamp = demo_format_timestamp, printf_double = demo_printf,
      max_points = 10, uint32_of_unset = None, CSV_BUFSIZ = 64, CSV_FIELD_SIZE = 16, CSV_MAX_FIELDS = 32\<rparr>"

text \<open>The activity with the single point \<open>ts = 0, lat = 1, lon = 2\<close>.\<close>

definition one_point :: DataPoint where
  "one_point = unset_data_point(Timestamp := Val 0, Latitude := Val 1, Longitude := Val 2)"

definition single_point_activity :: Activity where
  "single_point_activity =
     \<lparr>data_points = [one_point], last_val = one_point, breaks = [], laps = [],
      format = NoFormat, start_time = Val 0\<rparr>"

definition unbounded_stream :: FILE where
  "unbounded_stream = \<lparr>written = [], room = None, ferror = False\<rparr>"

definition full_stream :: FILE where
  "full_stream = \<lparr>written = [], room = Some 0, ferror = False\<rparr>"

definition csv_opts_remove :: CSVOptions where
  "csv_opts_remove = \<lparr>remove_unset = True, unset_value = ''NA''\<rparr>"

section \<open>Properties of the field-name resolver\<close>

lemmas resolver_defs =
  name_to_field_def downcase_def tolower_def toupper_def isspace_def
  upper_letters_def lower_letters_def

lemma name_to_field_leading_space:
  "\<forall>c \<in> set ws. isspace c \<Longrightarrow> name_to_field (ws @ name) = name_to_field name"
  by (simp add: name_to_field_def dropWhile_append2)

text \<open>
  C9. For every (alias, field) pair of the alias table, \<open>name_to_field\<close> maps the
  alias, the alias in upper case and the alias behind two spaces (or any other leading
  white space) to the field; it maps \<open>nope\<close>, and every name whose trimmed
  lower-case form is not an alias of the table, to \<open>DataFieldCount\<close> (unknown).
\<close>

theorem name_to_field_alias_closure:
  "(\<forall>(alias, field) \<in> set alias_table.
       name_to_field alias = field
     \<and> name_to_field (map toupper alias) = field
     \<and> name_to_field (''  '' @ alias) = field)
   \<and> name_to_field ''nope'' = DataFieldCount
   \<and> (\<forall>name. downcase (dropWhile isspace name) \<notin> fst ` set alias_table
         \<longrightarrow> name_to_field name = DataFieldCount)
   \<and> (\<forall>ws name. (\<forall>c \<in> set ws. isspace c)
         \<longrightarrow> name_to_field (ws @ name) = name_to_field name)"
proof (intro conjI allI impI)
  fix ws name
  assume "\<forall>c \<in> set ws. isspace c"
  then show "name_to_field (ws @ name) = name_to_field name"
    by (rule name_to_field_leading_space)
next
  show "\<forall>(alias, field) \<in> set alias_table.
       name_to_field alias = field
     \<and> name_to_field (map toupper alias) = field
     \<and> name_to_field (''  '' @ alias) = field"
    by (simp add: alias_table_def resolver_defs)
  show "name_to_field ''nope'' = DataFieldCount"
    by (simp add: resolver_defs)
next
  fix name
  assume "downcase (dropWhile isspace name) \<notin> fst ` set alias_table"
  then show "name_to_field name = DataFieldCount"
    by (simp add: alias_table_def name_to_field_def Let_def)
qed

theorem name_to_field_alias_closure_witness:
  "name_to_field ''heart_rate'' = HeartRate
   \<and> name_to_field ''HEART_RATE'' = HeartRate
   \<and> name_to_field ''  heart_rate'' = HeartRate
   \<and> name_to_field ''pulse'' = DataFieldCount"
proof -
  have in_table: "(''heart_rate'', HeartRate) \<in> set alias_table"
    by (simp add: alias_table_def)
  have upper: "map toupper ''heart_rate'' = ''HEART_RATE''"
    by (simp add: toupper_def upper_letters_def lower_letters_def)
  have not_alias: "downcase (dropWhile isspace ''pulse'') \<notin> fst ` set alias_table"
    by (simp add: alias_table_def resolver_defs)
  note closure = name_to_field_alias_closure
  from bspec [OF closure [THEN conjunct1] in_table]
  have three: "name_to_field ''heart_rate'' = HeartRate
     \<and> name_to_field (map toupper ''heart_rate'') = HeartRate
     \<and> name_to_field (''  '' @ ''heart_rate'') = HeartRate"
    by simp
  from closure [THEN conjunct2, THEN conjunct2, THEN conjunct1, rule_format, OF not_alias]
  have unknown: "name_to_field ''pulse'' = DataFieldCount" .
  from three [unfolded upper] unknown show ?thesis
    by simp
qed

section \<open>Properties of the CSV writer\<close>

lemma emit_False: "emit False cs = concat (map (\<lambda>c. '','' @ c) cs)"
  by (induction cs) auto

lemma emit_True: "emit True cs = join_commas cs"
proof (induction cs rule: join_commas.induct)
  case (3 c d ds)
  then show ?case by (simp add: emit_False)
qed simp_all

lemma fprintf_unbounded: "room f = None \<Longrightarrow> fst (fprintf f s) = put f s"
  by (simp add: fprintf_def put_def)

lemma put_room [simp]: "room (put f s) = room f"
  by (simp add: put_def)

lemma put_put [simp]: "put (put f s) t = put f (s @ t)"
  by (simp add: put_def)

lemma put_Nil [simp]: "put f [] = f"
  by (simp add: put_def)

lemma written_put [simp]: "written (put f s) = written f @ s"
  by (simp add: put_def)

lemma header_fold:
  "room f = None \<Longrightarrow> remove_unset opts \<Longrightarrow>
   fold (header_step a opts) fs (f, first) =
     (put f (emit first (map DATA_FIELDS (filter (\<lambda>field. SET (last_val a field)) fs))),
      first \<and> filter (\<lambda>field. SET (last_val a field)) fs = [])"
proof (induction fs arbitrary: f first)
  case Nil
  then show ?case by simp
next
  case (Cons x xs)
  then show ?case
    by (cases first) (simp_all add: header_step_def fprintf_unbounded)
qed

lemma write_row_fold:
  "write_row X a opts i f0 =
     fst (fprintf (fst (fold (row_step X a opts i) all_fields (f0, True))) [CHR 0x0A])"
  by (simp add: write_row_def all_fields_def row_step_def Let_def split: prod.splits)

lemma row_fold:
  "room f = None \<Longrightarrow> remove_unset opts \<Longrightarrow>
   fold (row_step X a opts i) fs (f, first) =
     (put f (emit first (map (cell X a opts i) (filter (\<lambda>field. SET (last_val a field)) fs))),
      first \<and> filter (\<lambda>field. SET (last_val a field)) fs = [])"
proof (induction fs arbitrary: f first)
  case Nil
  then show ?case by simp
next
  case (Cons x xs)
  then show ?case
    by (cases first)
      (simp_all add: row_step_def write_field_def cell_def fprintf_unbounded Let_def)
qed

lemma write_row_unbounded:
  "room f = None \<Longrightarrow> remove_unset opts \<Longrightarrow>
   write_row X a opts i f = put f (csv_line (map (cell X a opts i) (kept_fields a)))"
  by (simp add: write_row_fold row_fold fprintf_unbounded csv_line_def kept_fields_def emit_True)

lemma rows_fold:
  "room f = None \<Longrightarrow> remove_unset opts \<Longrightarrow>
   fold (write_row X a opts) is f =
     put f (concat (map (\<lambda>i. csv_line (map (cell X a opts i) (kept_fields a))) is))"
  by (induction "is" arbitrary: f) (simp_all add: write_row_unbounded)

lemma set_all_fields: "set all_fields = {field. field \<noteq> DataFieldCount}"
proof (rule set_eqI)
  fix x
  show "x \<in> set all_fields \<longleftrightarrow> x \<in> {field. field \<noteq> DataFieldCount}"
    by (cases x) (simp_all add: all_fields_def)
qed

lemma set_kept_fields:
  "set (kept_fields a) = {field. field \<noteq> DataFieldCount \<and> SET (last_val a field)}"
  using set_all_fields by (auto simp add: kept_fields_def)

text \<open>
  C4. With \<open>remove_unset\<close> on, on a stream that takes every write, \<open>csv_write_options\<close>
  prints the header line and then one line per data point, and all of these lines range
  over the same list of fields: the header has the names of the kept fields and each row
  has one cell for each kept field, in the same order. The kept fields are exactly the
  fields \<open>f\<close> with \<open>a->last[f]\<close> set. The function returns 0.
\<close>

theorem csv_remove_unset_symmetry:
  assumes "remove_unset opts" and "room f = None"
  shows "written (snd (csv_write_options X f a opts)) =
           written f @ csv_line (map DATA_FIELDS (kept_fields a))
             @ concat (map (\<lambda>i. csv_line (map (cell X a opts i) (kept_fields a)))
                        [0 ..< num_points a])
         \<and> set (kept_fields a) = {field. field \<noteq> DataFieldCount \<and> SET (last_val a field)}
         \<and> fst (csv_write_options X f a opts) = 0"
  using assms
  by (simp add: csv_write_options_def header_fold rows_fold fprintf_unbounded
      csv_line_def kept_fields_def[symmetric] emit_True set_kept_fields)

lemma kept_fields_single_point:
  "kept_fields single_point_activity = [Timestamp, Latitude, Longitude]"
  by (simp add: kept_fields_def all_fields_def single_point_activity_def one_point_def
      unset_data_point_def SET_def)

theorem csv_remove_unset_symmetry_witness:
  "remove_unset csv_opts_remove \<and> room unbounded_stream = None
   \<and> written (snd (csv_write_options demo_externs unbounded_stream single_point_activity
                     csv_opts_remove))
       = ''timestamp,latitude,longitude'' @ [CHR 0x0A]
           @ ''0,1.0000000,2.0000000'' @ [CHR 0x0A]"
proof -
  have h1: "remove_unset csv_opts_remove"
    by (simp add: csv_opts_remove_def)
  have h2: "room unbounded_stream = None"
    by (simp add: unbounded_stream_def)
  have n: "num_points single_point_activity = 1"
    by (simp add: num_points_def single_point_activity_def)
  have cells:
    "cell demo_externs single_point_activity csv_opts_remove 0 Timestamp = ''0''"
    "cell demo_externs single_point_activity csv_opts_remove 0 Latitude = ''1.0000000''"
    "cell demo_externs single_point_activity csv_opts_remove 0 Longitude = ''2.0000000''"
    by (simp_all add: cell_def single_point_activity_def one_point_def unset_data_point_def
        SET_def demo_externs_def demo_printf_def)
  from csv_remove_unset_symmetry [OF h1 h2, of demo_externs single_point_activity]
  have "written (snd (csv_write_options demo_externs unbounded_stream single_point_activity
                        csv_opts_remove))
        = written unbounded_stream
            @ csv_line (map DATA_FIELDS [Timestamp, Latitude, Longitude])
            @ csv_line [''0'', ''1.0000000'', ''2.0000000'']"
    by (simp add: kept_fields_single_point n cells)
  then show ?thesis
    using h1 h2 by (simp add: csv_line_def unbounded_stream_def)
qed

text \<open>
  C5 (what the code does). \<open>csv_write_options\<close> returns 0 whatever happens on the
  stream: on a device with no room left every \<open>fprintf\<close> fails, the error indicator of
  the stream is set and nothing is written, and the function still returns 0.
\<close>

theorem csv_write_returns_zero_on_stream_error:
  "fst (csv_write_options X f a opts) = 0
   \<and> csv_write_options demo_externs full_stream single_point_activity csv_opts_remove
       = (0, \<lparr>written = [], room = Some 0, ferror = True\<rparr>)"
proof
  show "fst (csv_write_options X f a opts) = 0"
    by (simp add: csv_write_options_def Let_def split: prod.splits)
  show "csv_write_options demo_externs full_stream single_point_activity csv_opts_remove
       = (0, \<lparr>written = [], room = Some 0, ferror = True\<rparr>)"
    by (simp add: csv_write_options_def write_row_def write_field_def header_step_def
        all_fields_def fprintf_def full_stream_def single_point_activity_def one_point_def
        unset_data_point_def csv_opts_remove_def SET_def num_points_def demo_externs_def
        demo_printf_def Let_def)
qed

section \<open>Concrete GPX inputs\<close>

text \<open>SAX events of small documents, as the loader hands them to the callback.\<close>

definition el :: "string \<Rightarrow> (string \<times> string) list \<Rightarrow> string option \<Rightarrow> mxml_node" where
  "el name as text = \<lparr>element = name, attrs = as, opaque = text, ref_count = 1\<rparr>"

definition ev_open :: "string \<Rightarrow> (string \<times> string) list \<Rightarrow> mxml_node \<times> mxml_sax_event" where
  "ev_open name as = (el name as None, MXML_SAX_ELEMENT_OPEN)"

definition ev_close :: "string \<Rightarrow> string option \<Rightarrow> mxml_node \<times> mxml_sax_event" where
  "ev_close name text = (el name [] text, MXML_SAX_ELEMENT_CLOSE)"

definition ev_data :: "string \<Rightarrow> mxml_node \<times> mxml_sax_event" where
  "ev_data text = (el [] [] (Some text), MXML_SAX_DATA)"

definition timed :: "string \<Rightarrow> (mxml_node \<times> mxml_sax_event) list" where
  "timed t = [ev_open ''time'' [], ev_data t, ev_close ''time'' (Some t)]"

definition trkpt_events :: "string \<Rightarrow> (mxml_node \<times> mxml_sax_event) list" where
  "trkpt_events t =
     [ev_open ''trkpt'' [(''lat'', ''1''), (''lon'', ''2'')]] @ timed t @ [ev_close ''trkpt'' None]"

definition wpt_events :: "string \<Rightarrow> (mxml_node \<times> mxml_sax_event) list" where
  "wpt_events t = [ev_open ''wpt'' []] @ timed t @ [ev_close ''wpt'' None]"

definition track_events :: "(mxml_node \<times> mxml_sax_event) list \<Rightarrow> (mxml_node \<times> mxml_sax_event) list" where
  "track_events pts =
     [ev_open ''trk'' [], ev_open ''trkseg'' []] @ pts
       @ [ev_close ''trkseg'' None, ev_close ''trk'' None]"

definition gpx_events :: "(mxml_node \<times> mxml_sax_event) list \<Rightarrow> (mxml_node \<times> mxml_sax_event) list" where
  "gpx_events body = [ev_open ''gpx'' []] @ body @ [ev_close ''gpx'' None]"

definition break_doc :: "(mxml_node \<times> mxml_sax_event) list" where
  "break_doc = gpx_events (wpt_events ''7'' @ track_events (trkpt_events ''5''))"

definition no_wpt_doc :: "(mxml_node \<times> mxml_sax_event) list" where
  "no_wpt_doc = gpx_events (track_events
      [ev_open ''trkpt'' [(''lat'', ''1''), (''lon'', ''2'')], ev_close ''trkpt'' None])"

definition matched_wpt_doc :: "(mxml_node \<times> mxml_sax_event) list" where
  "matched_wpt_doc = gpx_events (wpt_events ''5'' @ track_events (trkpt_events ''5'' @ trkpt_events ''7''))"

definition two_lap_doc :: "(mxml_node \<times> mxml_sax_event) list" where
  "two_lap_doc = gpx_events (wpt_events ''10'' @ wpt_events ''20''
      @ track_events (trkpt_events ''10'' @ trkpt_events ''20''))"

definition kml_doc :: "(mxml_node \<times> mxml_sax_event) list" where
  "kml_doc =
     [(el ''?xml'' [] None, MXML_SAX_DIRECTIVE), (el [] [] None, MXML_SAX_COMMENT)]
       @ (el ''kml'' [] None, MXML_SAX_ELEMENT_OPEN) # track_events (trkpt_events ''5'')"

text \<open>
  A track of three segments with five points; the way points are at the times of the
  last points of the first two segments (lap ends), and a third one matches no point.
\<close>

definition plain_trkpt_events :: "(mxml_node \<times> mxml_sax_event) list" where
  "plain_trkpt_events =
     [ev_open ''trkpt'' [(''lat'', ''1''), (''lon'', ''2'')], ev_close ''trkpt'' None]"

definition segment_events ::
  "(mxml_node \<times> mxml_sax_event) list \<Rightarrow> (mxml_node \<times> mxml_sax_event) list" where
  "segment_events pts = [ev_open ''trkseg'' []] @ pts @ [ev_close ''trkseg'' None]"

definition lap_end_doc :: "(mxml_node \<times> mxml_sax_event) list" where
  "lap_end_doc =
     gpx_events (wpt_events ''7'' @ wpt_events ''10'' @ wpt_events ''20''
       @ [ev_open ''trk'' []]
       @ segment_events (trkpt_events ''5'' @ trkpt_events ''7'')
       @ segment_events (plain_trkpt_events @ trkpt_events ''10'')
       @ segment_events plain_trkpt_events
       @ [ev_close ''trk'' None])"

definition lap_point :: "real \<Rightarrow> real \<Rightarrow> DataPoint" where
  "lap_point t c = unset_data_point(Timestamp := Val t, Latitude := Val c, Longitude := Val c)"

definition three_point_activity :: Activity where
  "three_point_activity =
     \<lparr>data_points = [lap_point 10 1, lap_point 20 1, lap_point 30 2],
      last_val = lap_point 30 2, breaks = [], laps = [2], format = NoFormat,
      start_time = Val 10\<rparr>"

definition gpx_opts_laps :: GPXOptions where
  "gpx_opts_laps = \<lparr>add_laps = True, lap_trksegs = False\<rparr>"

definition gpx_opts_plain :: GPXOptions where
  "gpx_opts_plain = \<lparr>add_laps = False, lap_trksegs = False\<rparr>"

section \<open>Properties of the GPX reader\<close>


lemmas ev_defs = el_def ev_open_def ev_close_def ev_data_def timed_def trkpt_events_def
  wpt_events_def track_events_def gpx_events_def plain_trkpt_events_def segment_events_def
lemmas sax_defs = sax_cb_def sax_cb_open_def sax_cb_close_def sax_cb_trkpt_close_def
  mxmlGetElement_def mxmlGetOpaque_def mxmlElementGetAttr_def mxmlRetain_def
  vector_add_def parse_field_def activity_add_point_def num_points_def
  uint32_of_double_def double_of_uint32_def
lemmas demo_defs = demo_externs_def demo_parse_def demo_timestamp_def
lemmas read_defs = gpx_read_def mxmlSAXLoadFile_def initial_state_def activity_new_def

text \<open>Evaluation of the loader one event at a time.\<close>

lemma sax_load_continue:
  "cb node event s = Inr (0, node', s') \<Longrightarrow>
   sax_load cb ((node, event) # rest) retained s
     = sax_load cb rest (if ref_count node < ref_count node' then retained @ [node'] else retained) s'"
  by simp

lemma sax_load_fault:
  "cb node event s = Inl e \<Longrightarrow> sax_load cb ((node, event) # rest) retained s = Inl e"
  by simp

lemmas load_simps = sax_load_continue sax_load_fault sax_load.simps(1)

text \<open>
  C10 (what the code does). The close of a \<open>trkpt\<close> reads \<open>lap_times[lap_num]\<close>
  whatever \<open>lap_num\<close> is. On a document with a track point and no \<open>wpt\<close> the vector
  is still null and the read is out of bounds; on a document whose only lap time has
  been matched, the close of the next track point reads one past the end.
\<close>

theorem trkpt_close_reads_lap_times_out_of_bounds:
  "gpx_read demo_externs no_wpt_doc = Inl OutOfBounds
   \<and> gpx_read demo_externs matched_wpt_doc = Inl OutOfBounds"
  by (simp add: read_defs no_wpt_doc_def matched_wpt_doc_def ev_defs sax_defs demo_defs
      load_simps del: sax_load.simps(2))

text \<open>
  C1 (what the code does). The document with a waypoint at time 7 and one track point
  at time 5 is read successfully; the activity has one point, and \<open>breaks\<close> is
  \<open>[5, 0]\<close>: the entry appended when \<open><time>\<close> closes outside a \<open><wpt>\<close> is the
  timestamp 5, which is not the index of a point.
\<close>

theorem gpx_read_breaks_hold_timestamp:
  "\<exists>a. gpx_read demo_externs break_doc = Inr (Some a)
     \<and> breaks a = [5, 0] \<and> num_points a = 1
     \<and> \<not> unat (breaks a ! 0) < num_points a"
  by (simp add: read_defs break_doc_def ev_defs sax_defs demo_defs load_simps
      del: sax_load.simps(2))


lemma sax_load_prefix:
  assumes "\<forall>(node, event) \<in> set pre. event \<noteq> MXML_SAX_ELEMENT_OPEN \<and> event \<noteq> MXML_SAX_ELEMENT_CLOSE"
  shows "\<exists>retained'. sax_load (sax_cb X) (pre @ rest) retained s
            = sax_load (sax_cb X) rest retained' s"
  using assms
proof (induction pre arbitrary: retained)
  case Nil
  then show ?case by auto
next
  case (Cons ev pre)
  obtain node event where ev: "ev = (node, event)" by (cases ev)
  with Cons.prems have ne: "event \<noteq> MXML_SAX_ELEMENT_OPEN" "event \<noteq> MXML_SAX_ELEMENT_CLOSE"
    and rest: "\<forall>(node, event) \<in> set pre. event \<noteq> MXML_SAX_ELEMENT_OPEN \<and> event \<noteq> MXML_SAX_ELEMENT_CLOSE"
    by auto
  from ne have "\<exists>node'. sax_cb X node event s = Inr (0, node', s)"
    by (simp add: sax_cb_def)
  then obtain node' where "sax_cb X node event s = Inr (0, node', s)" ..
  with Cons.IH [OF rest] ev show ?case
    by simp
qed

text \<open>
  C7. In a document whose first element is not \<open>gpx\<close> (before it the loader reports
  only directives, comments and data), the callback returns 1 on the open event of that
  element: the loader stops with no tree, \<open>gpx_read\<close> returns no activity, and the
  activity of the parser state has no point.
\<close>


theorem gpx_read_non_gpx_root:
  assumes "\<forall>(node, event) \<in> set pre. event \<noteq> MXML_SAX_ELEMENT_OPEN \<and> event \<noteq> MXML_SAX_ELEMENT_CLOSE"
    and "mxmlGetElement root_el \<noteq> ''gpx''"
  shows "gpx_read X (pre @ (root_el, MXML_SAX_ELEMENT_OPEN) # rest) = Inr None
       \<and> (\<exists>state. mxmlSAXLoadFile (pre @ (root_el, MXML_SAX_ELEMENT_OPEN) # rest) (sax_cb X) initial_state
             = Inr (None, state) \<and> data_points (activity state) = [])"
proof -
  have abort: "sax_cb X root_el MXML_SAX_ELEMENT_OPEN initial_state = Inr (1, root_el, initial_state)"
    using assms(2) by (simp add: sax_cb_def sax_cb_open_def initial_state_def)
  from sax_load_prefix [OF assms(1)]
  obtain retained' where
    "sax_load (sax_cb X) (pre @ (root_el, MXML_SAX_ELEMENT_OPEN) # rest) [] initial_state
       = sax_load (sax_cb X) ((root_el, MXML_SAX_ELEMENT_OPEN) # rest) retained' initial_state"
    by blast
  with abort have load: "mxmlSAXLoadFile (pre @ (root_el, MXML_SAX_ELEMENT_OPEN) # rest) (sax_cb X) initial_state
      = Inr (None, initial_state)"
    by (simp add: mxmlSAXLoadFile_def)
  have "data_points (activity initial_state) = []"
    by (simp add: initial_state_def activity_new_def)
  with load show ?thesis
    by (simp add: gpx_read_def)
qed


theorem gpx_read_non_gpx_root_witness:
  "mxmlGetElement (el ''kml'' [] None) \<noteq> ''gpx''
   \<and> gpx_read demo_externs kml_doc = Inr None
   \<and> (\<exists>state. mxmlSAXLoadFile kml_doc (sax_cb demo_externs) initial_state = Inr (None, state)
         \<and> data_points (activity state) = [])"
proof -
  have h1: "\<forall>(node, event) \<in> set [(el ''?xml'' [] None, MXML_SAX_DIRECTIVE),
                                    (el [] [] None, MXML_SAX_COMMENT)].
      event \<noteq> MXML_SAX_ELEMENT_OPEN \<and> event \<noteq> MXML_SAX_ELEMENT_CLOSE"
    by simp
  have h2: "mxmlGetElement (el ''kml'' [] None) \<noteq> ''gpx''"
    by (simp add: mxmlGetElement_def el_def)
  from gpx_read_non_gpx_root [OF h1 h2, of demo_externs "track_events (trkpt_events ''5'')"] h2
  show ?thesis
    by (simp add: kml_doc_def)
qed

subsection \<open>Lap reconciliation\<close>

text \<open>
  The reconciliation in the words of the specification: the starting lap 1; nothing
  more for at most one collected lap; otherwise, when every collected lap index equals
  \<open>breaks[j] - 1\<close> for some non-decreasing \<open>j\<close>, the collected indices shifted by one
  without the last; otherwise the collected indices as they are.
\<close>


fun all_paired :: "Vector \<Rightarrow> Vector \<Rightarrow> bool" where
  "all_paired [] bs = True"
| "all_paired (l # ls) bs =
     (case dropWhile (\<lambda>b. l \<noteq> b - 1) bs of
        [] \<Rightarrow> False
      | b # bs' \<Rightarrow> all_paired ls (b # bs'))"

definition fix_laps_spec :: "Vector \<Rightarrow> Vector \<Rightarrow> Vector" where
  "fix_laps_spec ls bs =
     1 # (if length ls \<le> 1 then []
          else if all_paired ls bs then map (\<lambda>l. l + 1) (butlast ls)
          else ls)"

lemma copy_fold:
  "fold (\<lambda>i s'. s'\<lparr>activity := (activity s')
            \<lparr>laps := fst (vector_add (laps (activity s')) (laps_read s' ! i + t))\<rparr>\<rparr>) is s
   = s\<lparr>activity := (activity s)\<lparr>laps := laps (activity s) @ map (\<lambda>i. laps_read s ! i + t) is\<rparr>\<rparr>"
  by (induction "is" arbitrary: s) (simp_all add: vector_add_def)

lemma map_nth_from_1: "map (\<lambda>i. f (xs ! i)) [1 ..< length xs] = map f (tl xs)"
proof (rule nth_equalityI)
  show "length (map (\<lambda>i. f (xs ! i)) [1 ..< length xs]) = length (map f (tl xs))"
    by simp
next
  fix i assume "i < length (map (\<lambda>i. f (xs ! i)) [1 ..< length xs])"
  then have "i < length xs - 1" by simp
  then show "map (\<lambda>i. f (xs ! i)) [1 ..< length xs] ! i = map f (tl xs) ! i"
    by (simp add: nth_tl)
qed

lemma map_nth_from_1_butlast:
  "map (\<lambda>i. f (xs ! i)) [1 ..< length xs - 1] = map f (butlast (tl xs))"
proof (rule nth_equalityI)
  show "length (map (\<lambda>i. f (xs ! i)) [1 ..< length xs - 1]) = length (map f (butlast (tl xs)))"
    by simp
next
  fix i assume "i < length (map (\<lambda>i. f (xs ! i)) [1 ..< length xs - 1])"
  then have "i < length xs - 1 - 1" by simp
  then show "map (\<lambda>i. f (xs ! i)) [1 ..< length xs - 1] ! i = map f (butlast (tl xs)) ! i"
    by (simp add: nth_butlast nth_tl)
qed

lemma lap_walk_pairs:
  "lap_walk ls bs i j = length ls \<Longrightarrow> i \<le> k \<Longrightarrow> k < length ls \<Longrightarrow>
   \<exists>m. j \<le> m \<and> m < length bs \<and> ls ! k = bs ! m - 1"
proof (induction ls bs i j arbitrary: k rule: lap_walk.induct)
  case (1 ls bs i j)
  show ?case
  proof (cases "i < length ls \<and> j < length bs")
    case False
    with "1.prems" show ?thesis
      by (simp add: lap_walk.simps [of ls bs i j])
  next
    case True
    show ?thesis
    proof (cases "ls ! i = bs ! j - 1")
      case eq: True
      with True "1.prems" have w: "lap_walk ls bs (i + 1) (j + 1) = length ls"
        by (simp add: lap_walk.simps [of ls bs i j])
      show ?thesis
      proof (cases "k = i")
        case True
        with eq \<open>i < length ls \<and> j < length bs\<close> show ?thesis by auto
      next
        case False
        with "1.prems" have "i + 1 \<le> k" by simp
        from "1.IH"(1) [OF True eq w this "1.prems"(3)]
        obtain m where "j + 1 \<le> m \<and> m < length bs \<and> ls ! k = bs ! m - 1" ..
        then show ?thesis by (intro exI [of _ m]) simp
      qed
    next
      case neq: False
      show ?thesis
      proof (cases "ls ! i > bs ! j - 1")
        case gt: True
        with True neq "1.prems" have w: "lap_walk ls bs i (j + 1) = length ls"
          by (simp add: lap_walk.simps [of ls bs i j])
        from "1.IH"(2) [OF True neq gt w "1.prems"(2) "1.prems"(3)]
        obtain m where "j + 1 \<le> m \<and> m < length bs \<and> ls ! k = bs ! m - 1" ..
        then show ?thesis by (intro exI [of _ m]) simp
      next
        case False
        with True neq "1.prems" show ?thesis
          by (simp add: lap_walk.simps [of ls bs i j])
      qed
    qed
  qed
qed

text \<open>
  What \<open>fix_laps\<close> does when lap indices were collected: it appends the starting lap 1
  to the laps of the activity. It stops there when one index was collected, or when
  \<open>breaks\<close> has fewer than two entries or fewer entries than there are collected
  indices. Otherwise, when the loop pairs all collected indices from the second one on,
  the collected indices without the first and the last are appended, each shifted by
  one; when it does not, the collected indices without the first are appended
  unchanged. Nothing else of the state changes.
\<close>

lemma fix_laps_appends:
  assumes "laps_read s \<noteq> []"
  shows "fix_laps s =
           Inr (s\<lparr>activity := (activity s)\<lparr>laps := laps (activity s) @ 1 #
             (if length (laps_read s) = 1
                 \<or> \<not> (1 < length (breaks (activity s))
                        \<and> length (laps_read s) \<le> length (breaks (activity s)))
              then []
              else if lap_walk (laps_read s) (breaks (activity s)) 1 1 = length (laps_read s)
              then map (\<lambda>l. l + 1) (butlast (tl (laps_read s)))
              else tl (laps_read s))\<rparr>\<rparr>)
         \<and> (lap_walk (laps_read s) (breaks (activity s)) 1 1 = length (laps_read s) \<longrightarrow>
              (\<forall>i. 1 \<le> i \<and> i < length (laps_read s) \<longrightarrow>
                 (\<exists>j. 1 \<le> j \<and> j < length (breaks (activity s))
                    \<and> laps_read s ! i = breaks (activity s) ! j - 1)))"
proof
  define ls where "ls = laps_read s"
  define bs where "bs = breaks (activity s)"
  define s1 where "s1 = s\<lparr>activity := (activity s)\<lparr>laps := fst (vector_add (laps (activity s)) 1)\<rparr>\<rparr>"
  have s1: "laps_read s1 = ls" "breaks (activity s1) = bs"
    "laps (activity s1) = laps (activity s) @ [1]"
    by (simp_all add: s1_def ls_def bs_def vector_add_def)
  have e1: "map (\<lambda>i. ls ! i + 1) [Suc 0 ..< length ls - Suc 0] = map (\<lambda>l. l + 1) (butlast (tl ls))"
    using map_nth_from_1_butlast [of "\<lambda>l. l + 1" ls] by simp
  have e0: "map (\<lambda>i. ls ! i) [Suc 0 ..< length ls] = tl ls"
    using map_nth_from_1 [of "\<lambda>x. x" ls] by simp
  from assms have "1 \<le> length ls"
    by (cases ls) (simp_all add: ls_def)
  then consider
      (single) "length ls = 1"
    | (guard) "1 < length ls" "\<not> (1 < length bs \<and> length ls \<le> length bs)"
    | (shift) "1 < length ls" "1 < length bs \<and> length ls \<le> length bs"
        "lap_walk ls bs 1 1 = length ls"
    | (keep) "1 < length ls" "1 < length bs \<and> length ls \<le> length bs"
        "lap_walk ls bs 1 1 \<noteq> length ls"
    by fastforce
  then have "fix_laps s =
           Inr (s\<lparr>activity := (activity s)\<lparr>laps := laps (activity s) @ 1 #
             (if length ls = 1 \<or> \<not> (1 < length bs \<and> length ls \<le> length bs) then []
              else if lap_walk ls bs 1 1 = length ls then map (\<lambda>l. l + 1) (butlast (tl ls))
              else tl ls)\<rparr>\<rparr>)"
  proof cases
    case single
    then have "ls \<noteq> []" by auto
    with single show ?thesis
      unfolding fix_laps_def Let_def s1_def [symmetric] s1
      by (simp add: s1_def vector_add_def)
  next
    case guard
    then have "ls \<noteq> []" "length ls \<noteq> 1" by auto
    with guard show ?thesis
      unfolding fix_laps_def Let_def s1_def [symmetric] s1
      by (auto simp add: s1_def vector_add_def)
  next
    case shift
    then have "ls \<noteq> []" "length ls \<noteq> 1" by auto
    with shift show ?thesis
      unfolding fix_laps_def Let_def s1_def [symmetric] s1
      by (simp add: copy_fold s1 e1) (simp add: s1_def vector_add_def)
  next
    case keep
    then have "ls \<noteq> []" "length ls \<noteq> 1" by auto
    with keep show ?thesis
      unfolding fix_laps_def Let_def s1_def [symmetric] s1
      by (simp add: copy_fold [where t = 0, simplified] s1 e0) (simp add: s1_def vector_add_def)
  qed
  then show "fix_laps s =
           Inr (s\<lparr>activity := (activity s)\<lparr>laps := laps (activity s) @ 1 #
             (if length (laps_read s) = 1
                 \<or> \<not> (1 < length (breaks (activity s))
                        \<and> length (laps_read s) \<le> length (breaks (activity s)))
              then []
              else if lap_walk (laps_read s) (breaks (activity s)) 1 1 = length (laps_read s)
              then map (\<lambda>l. l + 1) (butlast (tl (laps_read s)))
              else tl (laps_read s))\<rparr>\<rparr>)"
    by (simp only: ls_def bs_def)
next
  show "lap_walk (laps_read s) (breaks (activity s)) 1 1 = length (laps_read s) \<longrightarrow>
              (\<forall>i. 1 \<le> i \<and> i < length (laps_read s) \<longrightarrow>
                 (\<exists>j. 1 \<le> j \<and> j < length (breaks (activity s))
                    \<and> laps_read s ! i = breaks (activity s) ! j - 1))"
    using lap_walk_pairs by blast
qed


text \<open>
  C2 (what the code does). In the document \<open>lap_end_doc\<close> the way points are at the
  times of the last points of the first two track segments. The parse collects the lap
  indices \<open>[1, 3]\<close> and the breaks \<open>[5, 0, 7, 2, 10, 4]\<close>; every collected index
  equals \<open>breaks[j] - 1\<close> (for the breaks 2 and 4), so the laps are lap ends and the
  reconciliation should give \<open>[1, 2]\<close>: the starting lap, and the first lap end
  shifted by one. The walk of the code starts at the second entries, meets the break 0,
  whose \<open>breaks[j] - 1\<close> wraps around, and stops; the code leaves \<open>[1, 3]\<close>.
\<close>

theorem fix_laps_misses_lap_ends:
  "\<exists>tree st a. mxmlSAXLoadFile lap_end_doc (sax_cb demo_externs) initial_state = Inr (Some tree, st)
     \<and> laps_read st = [1, 3] \<and> breaks (activity st) = [5, 0, 7, 2, 10, 4]
     \<and> num_points (activity st) = 5
     \<and> fix_laps_spec (laps_read st) (breaks (activity st)) = [1, 2]
     \<and> gpx_read demo_externs lap_end_doc = Inr (Some a)
     \<and> laps a = [1, 3]"
proof -
  have walk: "lap_walk [1, 3] [5, 0, 7, 2, 10, 4] (Suc 0) (Suc 0) = Suc 0"
    by (simp add: lap_walk.simps [of _ _ "Suc 0" "Suc 0"])
  show ?thesis
    by (simp add: read_defs lap_end_doc_def ev_defs sax_defs demo_defs load_simps
        unset_data_point_def fix_laps_def fix_laps_spec_def walk del: sax_load.simps(2))
qed

text \<open>
  A second document: way points at the times 10 and 20 and track points at the same
  times. The collected lap indices are \<open>[0, 1]\<close>, \<open>breaks\<close> is \<open>[10, 0, 20]\<close>, no
  break pairs with the lap index 0, so the collected indices should be kept as they
  are, \<open>[1, 0, 1]\<close>; the code drops the first collected index and leaves \<open>[1, 1]\<close>.
\<close>

lemma fix_laps_drops_first_collected_lap:
  "\<exists>tree st a. mxmlSAXLoadFile two_lap_doc (sax_cb demo_externs) initial_state = Inr (Some tree, st)
     \<and> laps_read st = [0, 1] \<and> breaks (activity st) = [10, 0, 20]
     \<and> fix_laps_spec (laps_read st) (breaks (activity st)) = [1, 0, 1]
     \<and> gpx_read demo_externs two_lap_doc = Inr (Some a)
     \<and> laps a = [1, 1]"
proof -
  have walk: "lap_walk [0, 1] [10, 0, 20] (Suc 0) (Suc 0) = Suc 0"
    by (simp add: lap_walk.simps [of _ _ "Suc 0" "Suc 0"])
  show ?thesis
    by (simp add: read_defs two_lap_doc_def ev_defs sax_defs demo_defs load_simps
        fix_laps_def fix_laps_spec_def walk del: sax_load.simps(2))
qed

section \<open>Properties of the GPX writer\<close>

text \<open>
  The invariant of the container: \<open>last\<close> has a set value for a field exactly when
  some point of the activity has.
\<close>

definition last_consistent :: "Activity \<Rightarrow> bool" where
  "last_consistent a \<longleftrightarrow>
     (\<forall>field. SET (last_val a field) = (\<exists>p \<in> set (data_points a). SET (p field)))"








lemma last_consistent_add:
  "last_consistent a \<Longrightarrow> last_consistent (fst (activity_add_point X a p))"
  by (auto simp add: last_consistent_def activity_add_point_def)
















lemmas write_defs = to_gpx_xml_def wpt_element_def trkpt_element_def integer_child_def
  int_of_double_def num_points_def
  three_point_activity_def lap_point_def unset_data_point_def SET_def gpx_opts_laps_def
  gpx_opts_plain_def demo_externs_def demo_printf_def demo_format_timestamp_def



text \<open>
  C6 (what the code does). With \<open>add_laps\<close> on and \<open>laps = [2]\<close>, the way point of
  the lap has the coordinates of point 2 (\<open>2.0000000\<close>), and its \<open>time\<close> child holds
  the timestamp of point 0 (\<open>T10\<close>), which is \<open>data_points[i]\<close> for the position
  \<open>i = 0\<close> of the lap in \<open>laps\<close>, not the timestamp of the lap's point (\<open>T30\<close>).
\<close>

theorem lap_waypoint_time_of_wrong_point: "\<exists>decl attrs md trk.
   to_gpx_xml demo_externs three_point_activity gpx_opts_laps
     = Inr (Element decl [] [Element ''gpx'' attrs
         [md,
          Element ''wpt'' [(''lat'', ''2.0000000''), (''lon'', ''2.0000000'')]
            [Element ''time'' [] [Text ''T10''], Element ''name'' [] [Text ''Lap 0'']],
          trk]])
   \<and> laps three_point_activity = [2]
   \<and> format_timestamp demo_externs ((data_points three_point_activity ! 2) Timestamp) = ''T30''
   \<and> format_timestamp demo_externs ((data_points three_point_activity ! 0) Timestamp) = ''T10''"
  by (simp add: write_defs decimal.simps Let_def)

section \<open>Columns, cells and concrete CSV inputs\<close>










section \<open>Properties of the CSV reader\<close>





lemma join_commas_Cons2: "join_commas (c # d # cs) = c @ CHR '','' # join_commas (d # cs)"
  by simp




























end
